theory Spec2Isabelle
  imports Main
begin

section \<open>Domain types (src/types/index.ts)\<close>

text \<open>
  The string-literal unions of the source are datatypes. A JavaScript \<open>number\<close> is an
  IEEE double; the model keeps the number type \<open>'n\<close> abstract and takes the arithmetic
  the orchestrator uses as a parameter (record \<open>arith\<close> below), so that every statement
  about amounts holds for the double operations as for any other interpretation.
  An instant of time is the millisecond count that \<open>toISOString\<close> renders.
\<close>

datatype Currency = USD | EUR | GBP | MXN | BRL | NGN | KES | INR | PHP | C_USDC | C_USDT
datatype StableCoin = USDC | USDT | PHPC
datatype Network = Ethereum | Polygon | Solana | Base | Arbitrum

datatype TransferStatus =
    Pending | KycRequired | Processing | Bridging | Converting | Settling
  | Completed | Failed | Cancelled

datatype Provider = Paytech | Bridge | Tempo
datatype CollectMethod = BankTransfer | Card | MobileMoney
datatype PaymentRail = Sepa | Swift | LocalRails
datatype LegState = LegPending | LegProcessing | LegCompleted | LegFailed

datatype TransferPurpose =
  FamilySupport | BusinessPayment | Education | Medical | Investment | Other

type_synonym instant = nat

record 'n RouteLeg1 =
  l1_provider :: Provider
  l1_method :: CollectMethod
  l1_estimatedTime :: 'n
  l1_fee :: 'n

record 'n RouteLeg2 =
  l2_provider :: Provider
  l2_stablecoin :: StableCoin
  l2_network :: Network
  l2_estimatedTime :: 'n
  l2_fee :: 'n
  l2_fxRate :: 'n

record 'n RouteLeg3 =
  l3_provider :: Provider
  l3_method :: PaymentRail
  l3_estimatedTime :: 'n
  l3_fee :: 'n
  l3_fxRate :: 'n

record 'n TransferRoute =
  route_id :: string
  sourceCurrency :: Currency
  destinationCurrency :: Currency
  sourceCountry :: string
  destinationCountry :: string
  route_leg1 :: "'n RouteLeg1"
  route_leg2 :: "'n RouteLeg2"
  route_leg3 :: "'n RouteLeg3"
  totalFee :: 'n
  effectiveRate :: 'n
  estimatedTotalTime :: 'n

record 'n Fees =
  fee_paytech :: 'n
  fee_bridge :: 'n
  fee_tempo :: 'n
  fee_platform :: 'n
  fee_total :: 'n

record 'n TransferQuote =
  quoteId :: string
  route :: "'n TransferRoute"
  sendAmount :: 'n
  receiveAmount :: 'n
  exchangeRate :: 'n
  fees :: "'n Fees"
  expiresAt :: instant
  quote_createdAt :: instant

record BankAccount =
  accountName :: string
  accountNumber :: "string option"
  routingNumber :: "string option"
  iban :: "string option"
  swiftCode :: "string option"
  sortCode :: "string option"
  bankName :: string
  bankCountry :: string

record MobileWallet =
  wallet_provider :: string
  phoneNumber :: string
  wallet_country :: string

record Sender =
  sender_name :: string
  sender_email :: string
  sender_phone :: "string option"
  sender_bankAccount :: "BankAccount option"
  sender_walletAddress :: "string option"

record Recipient =
  recipient_name :: string
  recipient_email :: "string option"
  recipient_phone :: "string option"
  recipient_bankAccount :: "BankAccount option"
  recipient_mobileWallet :: "MobileWallet option"

record TransferRequest =
  request_quoteId :: string
  sender :: Sender
  recipient :: Recipient
  purpose :: TransferPurpose
  reference :: "string option"

record LegStatus =
  provider :: Provider
  externalId :: string
  leg_status :: LegState
  startedAt :: "instant option"
  leg_completedAt :: "instant option"
  txHash :: "string option"
  errorMessage :: "string option"

record Legs =
  leg1 :: "LegStatus option"
  leg2 :: "LegStatus option"
  leg3 :: "LegStatus option"

text \<open>
  The message of a timeline event is a template string of the source; the model keeps
  which template it is and the values interpolated into it.
\<close>

datatype 'n message =
    TransferInitiated
  | GeneratingTempoAddress
  | CreatingBridgeAddress
  | InitiatingFiatCollection
  | PaytechCollecting 'n Currency
  | TransferFailed string
  | FiatReceived Currency StableCoin Network
  | PaytechCollectionFailed
  | BridgeConverted string Network "string option"
  | TempoInitiating Currency
  | TempoSettlementFailed string
  | TransferComplete 'n Currency string
  | TempoBankSettlementFailed

record 'n TimelineEvent =
  event_id :: string
  event_timestamp :: instant
  event_status :: TransferStatus
  event_message :: "'n message"
  event_metadata :: "(string \<times> string option) list option"

record 'n Transfer =
  transfer_id :: string
  status :: TransferStatus
  quote :: "'n TransferQuote"
  request :: TransferRequest
  legs :: Legs
  timeline :: "'n TimelineEvent list"
  createdAt :: instant
  updatedAt :: instant
  completedAt :: "instant option"

section \<open>Errors, environment and store (src/lib/orchestrator.ts)\<close>

text \<open>
  A thrown value is either an \<open>Error\<close> object with its message or something else;
  \<open>error_message\<close> is the source's
  \<open>error instanceof Error ? error.message : fallback\<close>.
\<close>

datatype js_error = Error string | Thrown

fun error_message :: "string \<Rightarrow> js_error \<Rightarrow> string" where
  "error_message fallback (Error m) = m"
| "error_message fallback Thrown = fallback"

text \<open>
  \<open>new Date()\<close> and \<open>uuidv4()\<close> read the outside world. The environment gives the
  value of the k-th read of each; the world counts the reads made so far. The clock
  may or may not advance between two reads. The world also holds the module's
  \<open>transfers\<close> map and, in order, the calls made to the provider adapters together
  with the provider reference each returned (\<open>None\<close> when the call threw or returns
  no reference).
\<close>

record env =
  now :: "nat \<Rightarrow> instant"
  uuidv4 :: "nat \<Rightarrow> string"

datatype adapter_fn =
    GetPaytechQuote | GetBridgeQuote | GetTempoQuote
  | GetTempoDepositAddress | CreateBridgeLiquidationAddress
  | InitiatePaytechTransfer | CreateTempoPayment

record adapter_call =
  call_fn :: adapter_fn
  call_transferId :: "string option"
  call_returned :: "string option"

record 'n world =
  transfers :: "string \<rightharpoonup> 'n Transfer"
  clock_reads :: nat
  uuid_reads :: nat
  calls :: "adapter_call list"

definition init_world :: "'n world" where
  "init_world = \<lparr>transfers = Map.empty, clock_reads = 0, uuid_reads = 0, calls = []\<rparr>"

definition read_clock :: "env \<Rightarrow> 'n world \<Rightarrow> instant \<times> 'n world" where
  "read_clock e w = (now e (clock_reads w), w\<lparr>clock_reads := Suc (clock_reads w)\<rparr>)"

definition read_uuid :: "env \<Rightarrow> 'n world \<Rightarrow> string \<times> 'n world" where
  "read_uuid e w = (uuidv4 e (uuid_reads w), w\<lparr>uuid_reads := Suc (uuid_reads w)\<rparr>)"

definition log_call :: "adapter_fn \<Rightarrow> string option \<Rightarrow> string option \<Rightarrow> 'n world \<Rightarrow> 'n world" where
  "log_call f tid r w =
     w\<lparr>calls := calls w @ [\<lparr>call_fn = f, call_transferId = tid, call_returned = r\<rparr>]\<rparr>"

definition transfers_set :: "string \<Rightarrow> 'n Transfer \<Rightarrow> 'n world \<Rightarrow> 'n world" where
  "transfers_set k t w = w\<lparr>transfers := (transfers w)(k \<mapsto> t)\<rparr>"

definition not_found :: "string \<Rightarrow> js_error" where
  "not_found transferId = Error (''Transfer '' @ transferId @ '' not found'')"

subsection \<open>addEvent\<close>

text \<open>
  \<open>addEvent\<close> draws an id, reads the clock for the event's timestamp, pushes the event,
  sets the status and reads the clock a second time for \<open>updatedAt\<close>.
\<close>

definition addEvent ::
  "env \<Rightarrow> 'n Transfer \<Rightarrow> TransferStatus \<Rightarrow> 'n message \<Rightarrow>
   (string \<times> string option) list option \<Rightarrow> 'n world \<Rightarrow> 'n Transfer \<times> 'n world" where
  "addEvent e transfer st msg metadata w =
     (case read_uuid e w of (eid, w1) \<Rightarrow>
      case read_clock e w1 of (ts, w2) \<Rightarrow>
      let event = \<lparr>event_id = eid, event_timestamp = ts, event_status = st,
                   event_message = msg, event_metadata = metadata\<rparr>;
          t1 = transfer\<lparr>timeline := timeline transfer @ [event]\<rparr>;
          t2 = t1\<lparr>status := st\<rparr>
      in case read_clock e w2 of (upd, w3) \<Rightarrow> (t2\<lparr>updatedAt := upd\<rparr>, w3))"

subsection \<open>Webhook payloads and the leg updates of the handlers\<close>

record PaytechEvent =
  pe_status :: string
  pe_transferId :: string

record BridgeEvent =
  be_state :: string
  be_transferId :: string
  be_txHash :: "string option"
  be_amount :: string

record TempoEvent =
  te_status :: string
  te_paymentId :: string

record TempoPayment =
  tp_id :: string
  tp_status :: string

text \<open>
  \<open>if (transfer.legs.legN) { ... }\<close>: the leg is updated only when the record exists,
  and the clock is read only then.
\<close>

definition complete_leg1 :: "env \<Rightarrow> 'n Transfer \<Rightarrow> 'n world \<Rightarrow> 'n Transfer \<times> 'n world" where
  "complete_leg1 e t w =
     (case leg1 (legs t) of
        None \<Rightarrow> (t, w)
      | Some l \<Rightarrow>
          (case read_clock e w of (c, w1) \<Rightarrow>
             (t\<lparr>legs := (legs t)\<lparr>leg1 :=
                  Some (l\<lparr>leg_status := LegCompleted, leg_completedAt := Some c\<rparr>)\<rparr>\<rparr>, w1)))"

definition fail_leg1 :: "'n Transfer \<Rightarrow> 'n Transfer" where
  "fail_leg1 t =
     (case leg1 (legs t) of
        None \<Rightarrow> t
      | Some l \<Rightarrow> t\<lparr>legs := (legs t)\<lparr>leg1 := Some (l\<lparr>leg_status := LegFailed\<rparr>)\<rparr>\<rparr>)"

definition complete_leg2 ::
  "env \<Rightarrow> string option \<Rightarrow> 'n Transfer \<Rightarrow> 'n world \<Rightarrow> 'n Transfer \<times> 'n world" where
  "complete_leg2 e tx t w =
     (case leg2 (legs t) of
        None \<Rightarrow> (t, w)
      | Some l \<Rightarrow>
          (case read_clock e w of (c, w1) \<Rightarrow>
             (t\<lparr>legs := (legs t)\<lparr>leg2 :=
                  Some (l\<lparr>leg_status := LegCompleted, leg_completedAt := Some c,
                          txHash := tx\<rparr>)\<rparr>\<rparr>, w1)))"

definition start_leg3 ::
  "env \<Rightarrow> string \<Rightarrow> 'n Transfer \<Rightarrow> 'n world \<Rightarrow> 'n Transfer \<times> 'n world" where
  "start_leg3 e pid t w =
     (case leg3 (legs t) of
        None \<Rightarrow> (t, w)
      | Some l \<Rightarrow>
          (case read_clock e w of (c, w1) \<Rightarrow>
             (t\<lparr>legs := (legs t)\<lparr>leg3 :=
                  Some (l\<lparr>externalId := pid, leg_status := LegProcessing,
                          startedAt := Some c\<rparr>)\<rparr>\<rparr>, w1)))"

definition complete_leg3 :: "env \<Rightarrow> 'n Transfer \<Rightarrow> 'n world \<Rightarrow> 'n Transfer \<times> 'n world" where
  "complete_leg3 e t w =
     (case leg3 (legs t) of
        None \<Rightarrow> (t, w)
      | Some l \<Rightarrow>
          (case read_clock e w of (c, w1) \<Rightarrow>
             (t\<lparr>legs := (legs t)\<lparr>leg3 :=
                  Some (l\<lparr>leg_status := LegCompleted, leg_completedAt := Some c\<rparr>)\<rparr>\<rparr>, w1)))"

definition fail_leg3 :: "'n Transfer \<Rightarrow> 'n Transfer" where
  "fail_leg3 t =
     (case leg3 (legs t) of
        None \<Rightarrow> t
      | Some l \<Rightarrow> t\<lparr>legs := (legs t)\<lparr>leg3 := Some (l\<lparr>leg_status := LegFailed\<rparr>)\<rparr>\<rparr>)"

subsection \<open>handlePaytechWebhook\<close>

definition paytech_update ::
  "env \<Rightarrow> PaytechEvent \<Rightarrow> 'n Transfer \<Rightarrow> 'n world \<Rightarrow> 'n Transfer \<times> 'n world" where
  "paytech_update e paytechEvent transfer w =
     (if pe_status paytechEvent = ''settled'' then
        (case complete_leg1 e transfer w of (t1, w1) \<Rightarrow>
           addEvent e t1 Bridging
             (FiatReceived (sourceCurrency (route (quote t1)))
                (l2_stablecoin (route_leg2 (route (quote t1))))
                (l2_network (route_leg2 (route (quote t1))))) None w1)
      else if pe_status paytechEvent = ''failed'' then
        addEvent e (fail_leg1 transfer) Failed PaytechCollectionFailed None w
      else (transfer, w))"

definition handlePaytechWebhook ::
  "env \<Rightarrow> string \<Rightarrow> PaytechEvent \<Rightarrow> 'n world \<Rightarrow> (js_error + unit) \<times> 'n world" where
  "handlePaytechWebhook e transferId paytechEvent w =
     (case transfers w transferId of
        None \<Rightarrow> (Inl (not_found transferId), w)
      | Some transfer \<Rightarrow>
          (case paytech_update e paytechEvent transfer w of (t', w') \<Rightarrow>
             (Inr (), transfers_set transferId t' w')))"

subsection \<open>handleBridgeWebhook\<close>

text \<open>
  \<open>createTempoPayment\<close> tests \<open>'accountName' in recipientAccount\<close> before it posts:
  with neither a bank account nor a mobile wallet on the recipient the operand is
  \<open>undefined\<close> and the test throws a TypeError (the model's message text stands for
  the engine's). Otherwise the outcome is that of the HTTP call, which the caller of
  the model supplies. The call sits in the handler's \<open>try\<close> block, as does the call
  of \<open>getTempoQuote\<close>, which computes its answer locally and does not throw.
\<close>

definition createTempoPayment ::
  "Recipient \<Rightarrow> js_error + TempoPayment \<Rightarrow> js_error + TempoPayment" where
  "createTempoPayment r posted =
     (case recipient_bankAccount r of
        Some b \<Rightarrow> posted
      | None \<Rightarrow>
          (case recipient_mobileWallet r of
             Some m \<Rightarrow> posted
           | None \<Rightarrow> Inl (Error ''TypeError: cannot use in operator on undefined'')))"

definition returned_id :: "js_error + TempoPayment \<Rightarrow> string option" where
  "returned_id r = (case r of Inl err \<Rightarrow> None | Inr p \<Rightarrow> Some (tp_id p))"

definition bridge_update ::
  "env \<Rightarrow> string \<Rightarrow> BridgeEvent \<Rightarrow> js_error + TempoPayment \<Rightarrow> 'n Transfer \<Rightarrow> 'n world \<Rightarrow>
   'n Transfer \<times> 'n world" where
  "bridge_update e transferId bridgeEvent posted transfer w =
     (if be_state bridgeEvent = ''payment_processed'' then
        (case complete_leg2 e (be_txHash bridgeEvent) transfer w of (t1, w1) \<Rightarrow>
         case addEvent e t1 Converting
                (BridgeConverted (be_amount bridgeEvent)
                   (l2_network (route_leg2 (route (quote t1))))
                   (map_option (take 12) (be_txHash bridgeEvent)))
                (Some [(''txHash'', be_txHash bridgeEvent)]) w1 of (t2, w2) \<Rightarrow>
         case addEvent e t2 Settling
                (TempoInitiating (destinationCurrency (route (quote t2)))) None w2
           of (t3, w3) \<Rightarrow>
         let w4 = log_call GetTempoQuote None None w3;
             tempoPayment = createTempoPayment (recipient (request t3)) posted;
             w5 = log_call CreateTempoPayment (Some transferId) (returned_id tempoPayment) w4
         in (case tempoPayment of
               Inr p \<Rightarrow> start_leg3 e (tp_id p) t3 w5
             | Inl err \<Rightarrow>
                 addEvent e t3 Failed
                   (TempoSettlementFailed (error_message ''Unknown'' err)) None w5))
      else (transfer, w))"

definition handleBridgeWebhook ::
  "env \<Rightarrow> string \<Rightarrow> BridgeEvent \<Rightarrow> js_error + TempoPayment \<Rightarrow> 'n world \<Rightarrow>
   (js_error + unit) \<times> 'n world" where
  "handleBridgeWebhook e transferId bridgeEvent posted w =
     (case transfers w transferId of
        None \<Rightarrow> (Inl (not_found transferId), w)
      | Some transfer \<Rightarrow>
          (case bridge_update e transferId bridgeEvent posted transfer w of (t', w') \<Rightarrow>
             (Inr (), transfers_set transferId t' w')))"

subsection \<open>handleTempoWebhook\<close>

definition tempo_update ::
  "env \<Rightarrow> TempoEvent \<Rightarrow> 'n Transfer \<Rightarrow> 'n world \<Rightarrow> 'n Transfer \<times> 'n world" where
  "tempo_update e tempoEvent transfer w =
     (if te_status tempoEvent = ''settled'' \<or> te_status tempoEvent = ''completed'' then
        (case complete_leg3 e transfer w of (t1, w1) \<Rightarrow>
         case read_clock e w1 of (c, w2) \<Rightarrow>
           addEvent e (t1\<lparr>completedAt := Some c\<rparr>) Completed
             (TransferComplete (receiveAmount (quote t1))
                (destinationCurrency (route (quote t1)))
                (recipient_name (recipient (request t1)))) None w2)
      else if te_status tempoEvent = ''failed'' \<or> te_status tempoEvent = ''rejected'' then
        addEvent e (fail_leg3 transfer) Failed TempoBankSettlementFailed None w
      else (transfer, w))"

definition handleTempoWebhook ::
  "env \<Rightarrow> string \<Rightarrow> TempoEvent \<Rightarrow> 'n world \<Rightarrow> (js_error + unit) \<times> 'n world" where
  "handleTempoWebhook e transferId tempoEvent w =
     (case transfers w transferId of
        None \<Rightarrow> (Inl (not_found transferId), w)
      | Some transfer \<Rightarrow>
          (case tempo_update e tempoEvent transfer w of (t', w') \<Rightarrow>
             (Inr (), transfers_set transferId t' w')))"

subsection \<open>createTransfer\<close>

record BridgeLiquidationAddress =
  bla_id :: string
  bla_address :: string

record PaytechTransferResponse =
  ptr_transferId :: string
  ptr_status :: string

definition new_transfer ::
  "string \<Rightarrow> TransferRequest \<Rightarrow> 'n TransferQuote \<Rightarrow> instant \<Rightarrow> instant \<Rightarrow> 'n Transfer" where
  "new_transfer transferId req q c u =
     \<lparr>transfer_id = transferId, status = Pending, quote = q, request = req,
      legs = \<lparr>leg1 = None, leg2 = None, leg3 = None\<rparr>, timeline = [],
      createdAt = c, updatedAt = u, completedAt = None\<rparr>"

text \<open>The \<open>catch\<close> block: record the failure in the timeline, store, rethrow.\<close>

definition create_failed ::
  "env \<Rightarrow> string \<Rightarrow> js_error \<Rightarrow> 'n Transfer \<Rightarrow> 'n world \<Rightarrow>
   (js_error + 'n Transfer) \<times> 'n world" where
  "create_failed e transferId err transfer w =
     (case addEvent e transfer Failed
             (TransferFailed (error_message ''Unknown error'' err)) None w of (t', w') \<Rightarrow>
        (Inl err, transfers_set transferId t' w'))"

text \<open>
  \<open>getTempoDepositAddress\<close> catches its own failure and falls back to a generated
  address, so it always returns. The outcomes of \<open>createBridgeLiquidationAddress\<close>
  and \<open>initiatePaytechTransfer\<close> are supplied by the caller of the model; the second
  is only consulted when the first succeeded.

  The source stores the transfer object after the first event and mutates that same
  object afterwards, so the store sees every later mutation at once; both the normal
  path and the \<open>catch\<close> block end with \<open>transfers.set\<close>. The model threads the
  object as a value and writes it at the same two places, which gives the same world
  once the operation has returned or thrown. An operation is modelled as one step:
  other operations are not interleaved at its \<open>await\<close> points.
\<close>

definition createTransfer ::
  "env \<Rightarrow> TransferRequest \<Rightarrow> 'n TransferQuote \<Rightarrow>
   js_error + BridgeLiquidationAddress \<Rightarrow> js_error + PaytechTransferResponse \<Rightarrow>
   'n world \<Rightarrow> (js_error + 'n Transfer) \<times> 'n world" where
  "createTransfer e req q bridgeLiq paytechRes w =
     (case read_uuid e w of (transferId, wa) \<Rightarrow>
      case read_clock e wa of (c, wb) \<Rightarrow>
      case read_clock e wb of (u, wc) \<Rightarrow>
      case addEvent e (new_transfer transferId req q c u) Processing
             TransferInitiated None wc of (t1, w1) \<Rightarrow>
      let w2 = transfers_set transferId t1 w1 in
      case addEvent e t1 Processing GeneratingTempoAddress None w2 of (t2, w3) \<Rightarrow>
      let w4 = log_call GetTempoDepositAddress (Some transferId) None w3 in
      case addEvent e t2 Processing CreatingBridgeAddress None w4 of (t3, w5) \<Rightarrow>
      let w6 = log_call CreateBridgeLiquidationAddress (Some transferId)
                 (case bridgeLiq of Inl err \<Rightarrow> None | Inr a \<Rightarrow> Some (bla_id a)) w5 in
      (case bridgeLiq of
         Inl err \<Rightarrow> create_failed e transferId err t3 w6
       | Inr bridgeLiqAddress \<Rightarrow>
           let t4 = t3\<lparr>legs := (legs t3)\<lparr>leg2 :=
                      Some \<lparr>provider = Bridge, externalId = bla_id bridgeLiqAddress,
                            leg_status = LegPending, startedAt = None,
                            leg_completedAt = None, txHash = None,
                            errorMessage = None\<rparr>\<rparr>\<rparr> in
           case addEvent e t4 Processing InitiatingFiatCollection None w6 of (t5, w7) \<Rightarrow>
           let w8 = log_call InitiatePaytechTransfer (Some transferId)
                      (case paytechRes of Inl err \<Rightarrow> None
                       | Inr p \<Rightarrow> Some (ptr_transferId p)) w7 in
           (case paytechRes of
              Inl err \<Rightarrow> create_failed e transferId err t5 w8
            | Inr paytechTransfer \<Rightarrow>
                case read_clock e w8 of (s, w9) \<Rightarrow>
                let t6 = t5\<lparr>legs := (legs t5)\<lparr>leg1 :=
                           Some \<lparr>provider = Paytech,
                                 externalId = ptr_transferId paytechTransfer,
                                 leg_status = LegProcessing, startedAt = Some s,
                                 leg_completedAt = None, txHash = None,
                                 errorMessage = None\<rparr>\<rparr>\<rparr> in
                case addEvent e t6 Processing
                       (PaytechCollecting (sendAmount q) (sourceCurrency (route q)))
                       (Some [(''paytechTransferId'',
                               Some (ptr_transferId paytechTransfer))]) w9
                  of (t7, w10) \<Rightarrow>
                let t8 = t7\<lparr>legs := (legs t7)\<lparr>leg3 :=
                           Some \<lparr>provider = Tempo,
                                 externalId = ''tempo_pending_'' @ transferId,
                                 leg_status = LegPending, startedAt = None,
                                 leg_completedAt = None, txHash = None,
                                 errorMessage = None\<rparr>\<rparr>\<rparr> in
                (Inr t8, transfers_set transferId t8 w10))))"

subsection \<open>getTransferQuote\<close>

text \<open>
  The arithmetic of JavaScript numbers, as used by the quote aggregator:
  \<open>toFixed d x\<close> stands for \<open>parseFloat(x.toFixed(d))\<close> and \<open>lit k\<close> for the numeric
  literal \<open>k\<close>. No operation throws (a division by zero gives an infinity or NaN).
\<close>

record 'n arith =
  add :: "'n \<Rightarrow> 'n \<Rightarrow> 'n"
  sub :: "'n \<Rightarrow> 'n \<Rightarrow> 'n"
  mul :: "'n \<Rightarrow> 'n \<Rightarrow> 'n"
  dvd_n :: "'n \<Rightarrow> 'n \<Rightarrow> 'n"
  toFixed :: "nat \<Rightarrow> 'n \<Rightarrow> 'n"
  lit :: "nat \<Rightarrow> 'n"

record 'n QuoteRequest =
  req_sendAmount :: 'n
  req_sendCurrency :: Currency
  req_receiveCurrency :: Currency
  req_sendCountry :: string
  req_receiveCountry :: string
  req_paymentMethod :: "CollectMethod option"

record 'n PaytechFeeQuote =
  pq_fee :: 'n
  pq_feeCurrency :: Currency
  pq_estimatedSettlementSeconds :: 'n

record 'n BridgeFxQuote =
  bq_sourceAmount :: 'n
  bq_destinationAmount :: 'n
  bq_exchangeRate :: 'n
  bq_fee :: 'n
  bq_network :: Network
  bq_estimatedSettlementSeconds :: 'n

record 'n TempoQuote =
  tq_quoteId :: string
  tq_sourceAmount :: 'n
  tq_destinationAmount :: 'n
  tq_exchangeRate :: 'n
  tq_fee :: 'n
  tq_paymentRail :: PaymentRail
  tq_estimatedSettlementSeconds :: 'n

text \<open>
  The three provider adapters are external: each is a function of the arguments the
  orchestrator passes, returning a quote or throwing. \<open>settle_order\<close> is the order
  in time in which the promises of the three calls settle.
\<close>

datatype quote_call = PaytechQuoteCall | BridgeQuoteCall | TempoQuoteCall

record 'n adapters =
  getPaytechQuote :: "'n \<Rightarrow> Currency \<Rightarrow> string \<Rightarrow> js_error + 'n PaytechFeeQuote"
  getBridgeQuote :: "'n \<Rightarrow> Currency \<Rightarrow> StableCoin \<Rightarrow> Network \<Rightarrow> js_error + 'n BridgeFxQuote"
  getTempoQuote :: "'n \<Rightarrow> Currency \<Rightarrow> string \<Rightarrow> js_error + 'n TempoQuote"
  settle_order :: "quote_call list"

fun selectNetwork :: "Currency \<Rightarrow> Currency \<Rightarrow> Network" where
  "selectNetwork sourceCur destCur =
     (if sourceCur \<in> set [USD, EUR, GBP] then Base
      else if sourceCur \<in> set [MXN, BRL, NGN] then Polygon
      else Base)"

fun selectStablecoin :: "Currency \<Rightarrow> StableCoin" where
  "selectStablecoin sourceCur = USDC"

text \<open>
  \<open>await Promise.all([p, b, t])\<close>: the values of all three when all are fulfilled,
  and otherwise the rejection of the promise that rejects first in time. \<open>order\<close>
  lists the calls in the order in which they settle; a call it does not list settles
  after those it lists, in array order.
\<close>

fun first_rejection ::
  "quote_call list \<Rightarrow> js_error + 'a \<Rightarrow> js_error + 'b \<Rightarrow> js_error + 'c \<Rightarrow> js_error option" where
  "first_rejection [] p b t = None"
| "first_rejection (PaytechQuoteCall # cs) p b t =
     (case p of Inl err \<Rightarrow> Some err | Inr x \<Rightarrow> first_rejection cs p b t)"
| "first_rejection (BridgeQuoteCall # cs) p b t =
     (case b of Inl err \<Rightarrow> Some err | Inr y \<Rightarrow> first_rejection cs p b t)"
| "first_rejection (TempoQuoteCall # cs) p b t =
     (case t of Inl err \<Rightarrow> Some err | Inr z \<Rightarrow> first_rejection cs p b t)"

definition promise_all3 ::
  "quote_call list \<Rightarrow> js_error + 'a \<Rightarrow> js_error + 'b \<Rightarrow> js_error + 'c \<Rightarrow>
   js_error + ('a \<times> 'b \<times> 'c)" where
  "promise_all3 order p b t =
     (case first_rejection order p b t of
        Some err \<Rightarrow> Inl err
      | None \<Rightarrow>
          (case p of Inl err \<Rightarrow> Inl err
           | Inr x \<Rightarrow>
               (case b of Inl err \<Rightarrow> Inl err
                | Inr y \<Rightarrow> (case t of Inl err \<Rightarrow> Inl err | Inr z \<Rightarrow> Inr (x, y, z)))))"

text \<open>\<open>// Fetch quotes in parallel\<close>: the three adapter calls and their arguments.\<close>

definition fetch_quotes ::
  "'n arith \<Rightarrow> 'n adapters \<Rightarrow> 'n QuoteRequest \<Rightarrow>
   js_error + ('n PaytechFeeQuote \<times> 'n BridgeFxQuote \<times> 'n TempoQuote)" where
  "fetch_quotes ar ad req =
     promise_all3 (settle_order ad)
       (getPaytechQuote ad (req_sendAmount req) (req_sendCurrency req) (req_sendCountry req))
       (getBridgeQuote ad (req_sendAmount req) (req_sendCurrency req)
          (selectStablecoin (req_sendCurrency req))
          (selectNetwork (req_sendCurrency req) (req_receiveCurrency req)))
       (getTempoQuote ad (mul ar (req_sendAmount req) (lit ar 1)) (req_receiveCurrency req)
          (req_receiveCountry req))"

definition quote_window :: nat where
  "quote_window = 5 * 60 * 1000"

definition getTransferQuote ::
  "env \<Rightarrow> 'n arith \<Rightarrow> 'n adapters \<Rightarrow> 'n \<Rightarrow> 'n QuoteRequest \<Rightarrow> 'n world \<Rightarrow>
   (js_error + 'n TransferQuote) \<times> 'n world" where
  "getTransferQuote e ar ad PLATFORM_FEE_BPS req w =
     (let sendAmount = req_sendAmount req;
          sendCurrency = req_sendCurrency req;
          receiveCurrency = req_receiveCurrency req;
          sendCountry = req_sendCountry req;
          receiveCountry = req_receiveCountry req;
          stablecoin = selectStablecoin sendCurrency;
          network = selectNetwork sendCurrency receiveCurrency;
          w1 = log_call GetTempoQuote None None
                 (log_call GetBridgeQuote None None
                    (log_call GetPaytechQuote None None w))
      in case fetch_quotes ar ad req of
           Inl err \<Rightarrow> (Inl err, w1)
         | Inr (paytechQuote, bridgeQuote, tempoQuote) \<Rightarrow>
             let afterPaytech = sub ar sendAmount (pq_fee paytechQuote);
                 usdcAmount = sub ar (mul ar afterPaytech (bq_exchangeRate bridgeQuote))
                                (bq_fee bridgeQuote);
                 receiveAmount = mul ar (sub ar usdcAmount (tq_fee tempoQuote))
                                   (tq_exchangeRate tempoQuote);
                 platformFee = dvd_n ar (mul ar sendAmount PLATFORM_FEE_BPS) (lit ar 10000);
                 totalFeeInSendCurrency =
                   add ar
                     (add ar
                        (add ar (pq_fee paytechQuote)
                           (dvd_n ar (bq_fee bridgeQuote) (bq_exchangeRate bridgeQuote)))
                        (dvd_n ar (tq_fee tempoQuote) (bq_exchangeRate bridgeQuote)))
                     platformFee;
                 effectiveRate = dvd_n ar receiveAmount sendAmount;
                 totalTimeSeconds =
                   add ar
                     (add ar (pq_estimatedSettlementSeconds paytechQuote)
                        (bq_estimatedSettlementSeconds bridgeQuote))
                     (tq_estimatedSettlementSeconds tempoQuote)
             in case read_uuid e w1 of (rid, w2) \<Rightarrow>
                let r = \<lparr>route_id = rid,
                         sourceCurrency = sendCurrency,
                         destinationCurrency = receiveCurrency,
                         sourceCountry = sendCountry,
                         destinationCountry = receiveCountry,
                         route_leg1 =
                           \<lparr>l1_provider = Paytech, l1_method = BankTransfer,
                            l1_estimatedTime = pq_estimatedSettlementSeconds paytechQuote,
                            l1_fee = pq_fee paytechQuote\<rparr>,
                         route_leg2 =
                           \<lparr>l2_provider = Bridge, l2_stablecoin = stablecoin,
                            l2_network = network,
                            l2_estimatedTime = bq_estimatedSettlementSeconds bridgeQuote,
                            l2_fee = bq_fee bridgeQuote,
                            l2_fxRate = bq_exchangeRate bridgeQuote\<rparr>,
                         route_leg3 =
                           \<lparr>l3_provider = Tempo, l3_method = tq_paymentRail tempoQuote,
                            l3_estimatedTime = tq_estimatedSettlementSeconds tempoQuote,
                            l3_fee = tq_fee tempoQuote,
                            l3_fxRate = tq_exchangeRate tempoQuote\<rparr>,
                         totalFee = toFixed ar 2 totalFeeInSendCurrency,
                         effectiveRate = toFixed ar 6 effectiveRate,
                         estimatedTotalTime = totalTimeSeconds\<rparr>
                in case read_uuid e w2 of (qid, w3) \<Rightarrow>
                   case read_clock e w3 of (t_exp, w4) \<Rightarrow>
                   case read_clock e w4 of (t_now, w5) \<Rightarrow>
                     (Inr \<lparr>quoteId = qid, route = r, sendAmount = sendAmount,
                           receiveAmount = toFixed ar 2 receiveAmount,
                           exchangeRate = toFixed ar 6 effectiveRate,
                           fees =
                             \<lparr>fee_paytech = pq_fee paytechQuote,
                              fee_bridge =
                                toFixed ar 2
                                  (dvd_n ar (bq_fee bridgeQuote)
                                     (bq_exchangeRate bridgeQuote)),
                              fee_tempo =
                                toFixed ar 2
                                  (dvd_n ar (tq_fee tempoQuote)
                                     (bq_exchangeRate bridgeQuote)),
                              fee_platform = platformFee,
                              fee_total = toFixed ar 2 totalFeeInSendCurrency\<rparr>,
                           expiresAt = t_exp + quote_window,
                           quote_createdAt = t_now\<rparr>, w5))"

subsection \<open>Sequences of operations\<close>

datatype webhook =
    PaytechHook string PaytechEvent
  | BridgeHook string BridgeEvent "js_error + TempoPayment"
  | TempoHook string TempoEvent

fun deliver1 :: "env \<Rightarrow> webhook \<Rightarrow> 'n world \<Rightarrow> (js_error + unit) \<times> 'n world" where
  "deliver1 e (PaytechHook k ev) w = handlePaytechWebhook e k ev w"
| "deliver1 e (BridgeHook k ev posted) w = handleBridgeWebhook e k ev posted w"
| "deliver1 e (TempoHook k ev) w = handleTempoWebhook e k ev w"

fun deliver :: "env \<Rightarrow> webhook list \<Rightarrow> 'n world \<Rightarrow> 'n world" where
  "deliver e [] w = w"
| "deliver e (h # hs) w = deliver e hs (snd (deliver1 e h w))"

text \<open>What a handler does to the transfer it found, by kind of webhook.\<close>

fun hook_update ::
  "env \<Rightarrow> webhook \<Rightarrow> 'n Transfer \<Rightarrow> 'n world \<Rightarrow> 'n Transfer \<times> 'n world" where
  "hook_update e (PaytechHook k ev) t w = paytech_update e ev t w"
| "hook_update e (BridgeHook k ev posted) t w = bridge_update e k ev posted t w"
| "hook_update e (TempoHook k ev) t w = tempo_update e ev t w"

datatype 'n operation =
    GetQuote "'n arith" "'n adapters" 'n "'n QuoteRequest"
  | Create TransferRequest "'n TransferQuote"
      "js_error + BridgeLiquidationAddress" "js_error + PaytechTransferResponse"
  | Hook webhook

fun step :: "env \<Rightarrow> 'n operation \<Rightarrow> 'n world \<Rightarrow> 'n world" where
  "step e (GetQuote ar ad bps req) w = snd (getTransferQuote e ar ad bps req w)"
| "step e (Create req q bridgeLiq paytechRes) w =
     snd (createTransfer e req q bridgeLiq paytechRes w)"
| "step e (Hook h) w = snd (deliver1 e h w)"

fun run :: "env \<Rightarrow> 'n operation list \<Rightarrow> 'n world \<Rightarrow> 'n world" where
  "run e [] w = w"
| "run e (x # xs) w = run e xs (step e x w)"

section \<open>Notions used by the properties\<close>


fun hook_target :: "webhook \<Rightarrow> string" where
  "hook_target (PaytechHook k ev) = k"
| "hook_target (BridgeHook k ev posted) = k"
| "hook_target (TempoHook k ev) = k"

text \<open>The status tokens a handler has a branch for; any other token falls through.\<close>

fun hook_recognised :: "webhook \<Rightarrow> bool" where
  "hook_recognised (PaytechHook k ev) \<longleftrightarrow>
     pe_status ev = ''settled'' \<or> pe_status ev = ''failed''"
| "hook_recognised (BridgeHook k ev posted) \<longleftrightarrow> be_state ev = ''payment_processed''"
| "hook_recognised (TempoHook k ev) \<longleftrightarrow>
     te_status ev = ''settled'' \<or> te_status ev = ''completed'' \<or>
     te_status ev = ''failed'' \<or> te_status ev = ''rejected''"


fun tempo_completion :: "webhook \<Rightarrow> bool" where
  "tempo_completion (TempoHook k ev) \<longleftrightarrow>
     te_status ev = ''settled'' \<or> te_status ev = ''completed''"
| "tempo_completion h \<longleftrightarrow> False"




text \<open>
  The timeline is not empty, the status is that of its last event, and the last
  event's timestamp and \<open>updatedAt\<close> are two consecutive readings of the clock, both
  among the first \<open>n\<close> readings.
\<close>

definition timeline_consistent :: "env \<Rightarrow> nat \<Rightarrow> 'n Transfer \<Rightarrow> bool" where
  "timeline_consistent e n t \<longleftrightarrow>
     timeline t \<noteq> [] \<and> status t = event_status (last (timeline t)) \<and>
     (\<exists>i. Suc i < n \<and> event_timestamp (last (timeline t)) = now e i \<and>
          updatedAt t = now e (Suc i))"

definition world_consistent :: "env \<Rightarrow> 'n world \<Rightarrow> bool" where
  "world_consistent e w \<longleftrightarrow>
     (\<forall>k t. transfers w k = Some t \<longrightarrow> timeline_consistent e (clock_reads w) t)"

text \<open>A transfer with \<open>completedAt\<close> set has a \<open>completed\<close> event in its timeline.\<close>

definition completion_recorded :: "'n Transfer \<Rightarrow> bool" where
  "completion_recorded t \<longleftrightarrow>
     completedAt t = None \<or> Completed \<in> set (map event_status (timeline t))"

text \<open>
  The provider reference of each leg record of the transfer stored under \<open>k\<close> was
  returned by a successful call of that leg's initiation for \<open>k\<close>, except that leg 3
  may still hold the placeholder that \<open>createTransfer\<close> gives it.
\<close>

definition returned_by :: "adapter_fn \<Rightarrow> string \<Rightarrow> string \<Rightarrow> adapter_call" where
  "returned_by f k x = \<lparr>call_fn = f, call_transferId = Some k, call_returned = Some x\<rparr>"

definition legs_backed :: "string \<Rightarrow> adapter_call list \<Rightarrow> 'n Transfer \<Rightarrow> bool" where
  "legs_backed k cs t \<longleftrightarrow>
     (case leg1 (legs t) of None \<Rightarrow> True
      | Some l \<Rightarrow> returned_by InitiatePaytechTransfer k (externalId l) \<in> set cs) \<and>
     (case leg2 (legs t) of None \<Rightarrow> True
      | Some l \<Rightarrow> returned_by CreateBridgeLiquidationAddress k (externalId l) \<in> set cs) \<and>
     (case leg3 (legs t) of None \<Rightarrow> True
      | Some l \<Rightarrow> externalId l = ''tempo_pending_'' @ k \<or>
                  returned_by CreateTempoPayment k (externalId l) \<in> set cs)"

text \<open>
  The chained pipeline formula in the words of the specification, over the same
  arithmetic, to compare with what \<open>getTransferQuote\<close> computes.
\<close>

definition spec_afterLeg1 :: "'n arith \<Rightarrow> 'n \<Rightarrow> 'n \<Rightarrow> 'n" where
  "spec_afterLeg1 ar send leg1_fee = sub ar send leg1_fee"

definition spec_stablecoinAmount :: "'n arith \<Rightarrow> 'n \<Rightarrow> 'n \<Rightarrow> 'n \<Rightarrow> 'n \<Rightarrow> 'n" where
  "spec_stablecoinAmount ar send leg1_fee leg2_rate leg2_fee =
     sub ar (mul ar (spec_afterLeg1 ar send leg1_fee) leg2_rate) leg2_fee"

definition spec_receiveAmount ::
  "'n arith \<Rightarrow> 'n \<Rightarrow> 'n \<Rightarrow> 'n \<Rightarrow> 'n \<Rightarrow> 'n \<Rightarrow> 'n \<Rightarrow> 'n" where
  "spec_receiveAmount ar send leg1_fee leg2_rate leg2_fee leg3_fee leg3_rate =
     mul ar (sub ar (spec_stablecoinAmount ar send leg1_fee leg2_rate leg2_fee) leg3_fee)
       leg3_rate"

definition spec_platformFee :: "'n arith \<Rightarrow> 'n \<Rightarrow> 'n \<Rightarrow> 'n" where
  "spec_platformFee ar send bps = dvd_n ar (mul ar send bps) (lit ar 10000)"

definition spec_totalFee :: "'n arith \<Rightarrow> 'n \<Rightarrow> 'n \<Rightarrow> 'n \<Rightarrow> 'n \<Rightarrow> 'n \<Rightarrow> 'n \<Rightarrow> 'n" where
  "spec_totalFee ar send bps leg1_fee leg2_rate leg2_fee leg3_fee =
     add ar
       (add ar (add ar leg1_fee (dvd_n ar leg2_fee leg2_rate)) (dvd_n ar leg3_fee leg2_rate))
       (spec_platformFee ar send bps)"

section \<open>Example data\<close>

text \<open>
  A clock that advances by one millisecond at every read, distinct ids, and an
  interpretation of the arithmetic over the integers (whole units, integer division,
  nothing to round), used to run the definitions on examples.
\<close>

definition demo_env :: env where
  "demo_env = \<lparr>now = (\<lambda>k. 1000 + k), uuidv4 = (\<lambda>k. ''id-'' @ replicate k CHR ''x'')\<rparr>"

definition int_arith :: "int arith" where
  "int_arith =
     \<lparr>add = (+), sub = (-), mul = (*), dvd_n = (div), toFixed = (\<lambda>d x. x), lit = int\<rparr>"

definition demo_adapters :: "int adapters" where
  "demo_adapters =
     \<lparr>getPaytechQuote = (\<lambda>amount cur country.
         Inr \<lparr>pq_fee = 5, pq_feeCurrency = cur, pq_estimatedSettlementSeconds = 900\<rparr>),
      getBridgeQuote = (\<lambda>amount cur coin net.
         Inr \<lparr>bq_sourceAmount = amount, bq_destinationAmount = 999, bq_exchangeRate = 1,
              bq_fee = 1, bq_network = net, bq_estimatedSettlementSeconds = 30\<rparr>),
      getTempoQuote = (\<lambda>amount cur country.
         Inr \<lparr>tq_quoteId = ''tempo_q_1'', tq_sourceAmount = amount,
              tq_destinationAmount = 57536, tq_exchangeRate = 58, tq_fee = 8,
              tq_paymentRail = LocalRails, tq_estimatedSettlementSeconds = 3600\<rparr>),
      settle_order = [TempoQuoteCall, PaytechQuoteCall, BridgeQuoteCall]\<rparr>"

definition failing_adapters :: "int adapters" where
  "failing_adapters =
     demo_adapters\<lparr>getBridgeQuote := (\<lambda>amount cur coin net. Inl (Error ''timeout''))\<rparr>"

definition demo_quote_request :: "int QuoteRequest" where
  "demo_quote_request =
     \<lparr>req_sendAmount = 1000, req_sendCurrency = USD, req_receiveCurrency = PHP,
      req_sendCountry = ''US'', req_receiveCountry = ''PH'', req_paymentMethod = None\<rparr>"

definition demo_quote :: "int TransferQuote" where
  "demo_quote =
     \<lparr>quoteId = ''q-1'',
      route =
        \<lparr>route_id = ''r-1'', sourceCurrency = USD, destinationCurrency = PHP,
         sourceCountry = ''US'', destinationCountry = ''PH'',
         route_leg1 = \<lparr>l1_provider = Paytech, l1_method = BankTransfer,
                        l1_estimatedTime = 900, l1_fee = 5\<rparr>,
         route_leg2 = \<lparr>l2_provider = Bridge, l2_stablecoin = USDC, l2_network = Base,
                        l2_estimatedTime = 30, l2_fee = 1, l2_fxRate = 1\<rparr>,
         route_leg3 = \<lparr>l3_provider = Tempo, l3_method = LocalRails,
                        l3_estimatedTime = 3600, l3_fee = 8, l3_fxRate = 58\<rparr>,
         totalFee = 19, effectiveRate = 57, estimatedTotalTime = 4530\<rparr>,
      sendAmount = 1000, receiveAmount = 57188, exchangeRate = 57,
      fees = \<lparr>fee_paytech = 5, fee_bridge = 1, fee_tempo = 8, fee_platform = 5,
               fee_total = 19\<rparr>,
      expiresAt = 301000, quote_createdAt = 1001\<rparr>"

definition demo_request :: TransferRequest where
  "demo_request =
     \<lparr>request_quoteId = ''q-1'',
      sender = \<lparr>sender_name = ''Ann'', sender_email = ''ann@example.com'',
                 sender_phone = None, sender_bankAccount = None,
                 sender_walletAddress = None\<rparr>,
      recipient = \<lparr>recipient_name = ''Ben'', recipient_email = None,
                    recipient_phone = None,
                    recipient_bankAccount =
                      Some \<lparr>accountName = ''Ben'', accountNumber = Some ''123'',
                            routingNumber = None, iban = None, swiftCode = None,
                            sortCode = None, bankName = ''Bank'', bankCountry = ''PH''\<rparr>,
                    recipient_mobileWallet = None\<rparr>,
      purpose = FamilySupport, reference = None\<rparr>"

definition demo_liq :: "js_error + BridgeLiquidationAddress" where
  "demo_liq = Inr \<lparr>bla_id = ''liq-1'', bla_address = ''0xabc''\<rparr>"

definition demo_collect :: "js_error + PaytechTransferResponse" where
  "demo_collect = Inr \<lparr>ptr_transferId = ''pt-1'', ptr_status = ''submitted''\<rparr>"

definition demo_payment :: "js_error + TempoPayment" where
  "demo_payment = Inr \<lparr>tp_id = ''pay-1'', tp_status = ''processing''\<rparr>"

definition paytech_settled :: webhook where
  "paytech_settled = PaytechHook ''id-'' \<lparr>pe_status = ''settled'', pe_transferId = ''pt-1''\<rparr>"

definition paytech_failed :: webhook where
  "paytech_failed = PaytechHook ''id-'' \<lparr>pe_status = ''failed'', pe_transferId = ''pt-1''\<rparr>"

definition bridge_processed :: webhook where
  "bridge_processed =
     BridgeHook ''id-''
       \<lparr>be_state = ''payment_processed'', be_transferId = ''liq-1'',
        be_txHash = Some ''0xfeed'', be_amount = ''994''\<rparr> demo_payment"

definition bridge_processed_throwing :: webhook where
  "bridge_processed_throwing =
     BridgeHook ''id-''
       \<lparr>be_state = ''payment_processed'', be_transferId = ''liq-1'',
        be_txHash = Some ''0xfeed'', be_amount = ''994''\<rparr> (Inl (Error ''Tempo error''))"

definition tempo_completed :: webhook where
  "tempo_completed = TempoHook ''id-'' \<lparr>te_status = ''completed'', te_paymentId = ''pay-1''\<rparr>"

definition tempo_failed :: webhook where
  "tempo_failed = TempoHook ''id-'' \<lparr>te_status = ''failed'', te_paymentId = ''pay-1''\<rparr>"

definition tempo_unknown :: webhook where
  "tempo_unknown = TempoHook ''id-'' \<lparr>te_status = ''processing'', te_paymentId = ''pay-1''\<rparr>"

text \<open>
  The world after a transfer was committed, after it ran to completion, and after a
  commit during which the Bridge adapter threw.
\<close>

definition demo_unrouted :: "int world" where
  "demo_unrouted =
     run demo_env [Create demo_request demo_quote (Inl (Error ''Bridge error'')) demo_collect]
       init_world"

definition demo_created :: "int world" where
  "demo_created = run demo_env [Create demo_request demo_quote demo_liq demo_collect] init_world"

definition demo_done :: "int world" where
  "demo_done =
     deliver demo_env [paytech_settled, bridge_processed, tempo_completed] demo_created"

section \<open>Basic facts about the model\<close>

lemma addEvent_eq:
  "addEvent e t st msg md w =
     (t\<lparr>timeline := timeline t @
           [\<lparr>event_id = uuidv4 e (uuid_reads w), event_timestamp = now e (clock_reads w),
             event_status = st, event_message = msg, event_metadata = md\<rparr>],
         status := st, updatedAt := now e (Suc (clock_reads w))\<rparr>,
      w\<lparr>uuid_reads := Suc (uuid_reads w), clock_reads := Suc (Suc (clock_reads w))\<rparr>)"
  by (simp add: addEvent_def read_uuid_def read_clock_def Let_def)

lemmas leg_defs = complete_leg1_def fail_leg1_def complete_leg2_def start_leg3_def
  complete_leg3_def fail_leg3_def read_clock_def

lemmas update_defs = paytech_update_def bridge_update_def tempo_update_def

lemmas handler_defs = handlePaytechWebhook_def handleBridgeWebhook_def handleTempoWebhook_def

lemmas create_defs = createTransfer_def create_failed_def new_transfer_def read_uuid_def
  read_clock_def log_call_def transfers_set_def addEvent_eq Let_def

lemmas quote_defs = getTransferQuote_def read_uuid_def read_clock_def log_call_def Let_def

lemmas demo_defs = demo_env_def demo_quote_def demo_request_def demo_liq_def demo_collect_def
  demo_payment_def paytech_settled_def paytech_failed_def bridge_processed_def
  bridge_processed_throwing_def tempo_completed_def tempo_failed_def tempo_unknown_def init_world_def

lemmas run_defs = create_defs handler_defs update_defs leg_defs createTempoPayment_def
  returned_id_def


lemma ex_read:
  "a < n \<Longrightarrow> \<exists>i<n. now e a = now e i \<and> now e (Suc a) = now e (Suc i)"
  by blast

subsection \<open>Webhook handlers\<close>

lemma deliver1_eq:
  "deliver1 e h w =
     (case transfers w (hook_target h) of
        None \<Rightarrow> (Inl (not_found (hook_target h)), w)
      | Some t \<Rightarrow>
          (Inr (), transfers_set (hook_target h) (fst (hook_update e h t w))
                     (snd (hook_update e h t w))))"
  by (cases h) (simp_all add: handler_defs split: option.splits prod.splits)


lemma hook_update_transfers:
  "transfers (snd (hook_update e h t w)) = transfers w"
  by (cases h)
     (auto simp: update_defs leg_defs addEvent_eq log_call_def Let_def
        split: option.splits sum.splits)

lemma hook_update_clock: "clock_reads w \<le> clock_reads (snd (hook_update e h t w))"
  by (cases h)
     (auto simp: update_defs leg_defs addEvent_eq log_call_def Let_def
        split: option.splits sum.splits)

lemma hook_update_calls: "set (calls w) \<subseteq> set (calls (snd (hook_update e h t w)))"
  by (cases h)
     (auto simp: update_defs leg_defs addEvent_eq log_call_def Let_def
        split: option.splits sum.splits)

lemma deliver1_lookup:
  "transfers (snd (deliver1 e h w)) k =
     (if k = hook_target h
      then map_option (\<lambda>t. fst (hook_update e h t w)) (transfers w k)
      else transfers w k)"
  by (simp add: deliver1_eq transfers_set_def hook_update_transfers split: option.splits)

lemma deliver1_clock: "clock_reads w \<le> clock_reads (snd (deliver1 e h w))"
  by (simp add: deliver1_eq transfers_set_def hook_update_clock split: option.splits)

lemma deliver1_calls: "set (calls w) \<subseteq> set (calls (snd (deliver1 e h w)))"
  by (simp add: deliver1_eq transfers_set_def hook_update_calls split: option.splits)

lemma deliver1_found:
  "transfers w (hook_target h) = Some t \<Longrightarrow>
     clock_reads (snd (deliver1 e h w)) = clock_reads (snd (hook_update e h t w)) \<and>
     calls (snd (deliver1 e h w)) = calls (snd (hook_update e h t w))"
  by (simp add: deliver1_eq transfers_set_def)


lemma hook_update_timeline_grows:
  "hook_recognised h \<Longrightarrow>
     length (timeline t) < length (timeline (fst (hook_update e h t w)))"
  by (cases h)
     (auto simp: update_defs leg_defs addEvent_eq log_call_def Let_def
        split: option.splits sum.splits)

subsection \<open>createTransfer and getTransferQuote\<close>

lemma createTransfer_other:
  "k \<noteq> uuidv4 e (uuid_reads w) \<Longrightarrow>
     transfers (snd (createTransfer e req q bl pr w)) k = transfers w k"
  by (cases bl; cases pr) (simp_all add: create_defs)

lemma createTransfer_clock:
  "clock_reads w \<le> clock_reads (snd (createTransfer e req q bl pr w))"
  by (cases bl; cases pr) (simp_all add: create_defs)

lemma createTransfer_calls:
  "set (calls w) \<subseteq> set (calls (snd (createTransfer e req q bl pr w)))"
  by (cases bl; cases pr) (auto simp: create_defs)

lemma getTransferQuote_world:
  "transfers (snd (getTransferQuote e ar ad bps req w)) = transfers w \<and>
   clock_reads w \<le> clock_reads (snd (getTransferQuote e ar ad bps req w)) \<and>
   set (calls w) \<subseteq> set (calls (snd (getTransferQuote e ar ad bps req w)))"
proof (cases "fetch_quotes ar ad req")
  case (Inl err)
  then show ?thesis
    by (auto simp: quote_defs simp del: selectNetwork.simps)
next
  case (Inr r)
  then show ?thesis
    by (cases r) (auto simp: quote_defs simp del: selectNetwork.simps)
qed

lemma step_clock: "clock_reads w \<le> clock_reads (step e x w)"
  by (cases x) (simp_all add: getTransferQuote_world createTransfer_clock deliver1_clock)

lemma step_calls: "set (calls w) \<subseteq> set (calls (step e x w))"
  by (cases x) (simp_all add: getTransferQuote_world createTransfer_calls deliver1_calls)

text \<open>
  An operation leaves a stored transfer as it is, or replaces it by what a webhook
  handler makes of it, or stores a newly created transfer under a fresh id.
\<close>

lemma step_lookup:
  assumes "transfers (step e x w) k = Some t'"
  shows "transfers w k = Some t' \<or>
         (\<exists>h t. x = Hook h \<and> hook_target h = k \<and> transfers w k = Some t \<and>
                t' = fst (hook_update e h t w)) \<or>
         (\<exists>req q bl pr. x = Create req q bl pr \<and> k = uuidv4 e (uuid_reads w))"
proof (cases x)
  case (GetQuote ar ad bps req)
  then show ?thesis using assms by (simp add: getTransferQuote_world)
next
  case (Create req q bl pr)
  then show ?thesis
    using assms by (cases "k = uuidv4 e (uuid_reads w)") (simp_all add: createTransfer_other)
next
  case (Hook h)
  then show ?thesis
    using assms by (auto simp: deliver1_lookup split: if_splits)
qed

subsection \<open>Timeline and status\<close>

lemma consistent_mono:
  "timeline_consistent e n t \<Longrightarrow> n \<le> m \<Longrightarrow> timeline_consistent e m t"
  unfolding timeline_consistent_def by (meson less_le_trans)

lemma hook_update_consistent:
  "timeline_consistent e (clock_reads w) t \<Longrightarrow>
     timeline_consistent e (clock_reads (snd (hook_update e h t w))) (fst (hook_update e h t w))"
  unfolding timeline_consistent_def
  by (cases h)
     (auto simp: update_defs leg_defs addEvent_eq log_call_def Let_def
        split: option.splits sum.splits intro!: ex_read)

lemma createTransfer_new_consistent:
  "transfers (snd (createTransfer e req q bl pr w)) (uuidv4 e (uuid_reads w)) = Some t' \<Longrightarrow>
     timeline_consistent e (clock_reads (snd (createTransfer e req q bl pr w))) t'"
  by (cases bl; cases pr)
     (auto simp: create_defs timeline_consistent_def intro!: ex_read)

lemma step_consistent:
  assumes "world_consistent e w"
  shows "world_consistent e (step e x w)"
  unfolding world_consistent_def
proof (intro allI impI)
  fix k t'
  assume st: "transfers (step e x w) k = Some t'"
  from step_lookup [OF st]
  show "timeline_consistent e (clock_reads (step e x w)) t'"
  proof (elim disjE exE conjE)
    assume "transfers w k = Some t'"
    then have "timeline_consistent e (clock_reads w) t'"
      using assms by (simp add: world_consistent_def)
    then show ?thesis by (rule consistent_mono) (rule step_clock)
  next
    fix h t
    assume h: "x = Hook h" "hook_target h = k" "transfers w k = Some t"
      "t' = fst (hook_update e h t w)"
    then have "timeline_consistent e (clock_reads w) t"
      using assms by (simp add: world_consistent_def)
    then show ?thesis
      using h hook_update_consistent [of e w t h] deliver1_found [of w h t e] by simp
  next
    fix req q bl pr
    assume "x = Create req q bl pr" "k = uuidv4 e (uuid_reads w)"
    then show ?thesis
      using st createTransfer_new_consistent [of e req q bl pr w t'] by simp
  qed
qed

lemma init_consistent: "world_consistent e init_world"
  by (simp add: world_consistent_def init_world_def)

subsection \<open>completedAt\<close>

lemma hook_update_recorded:
  "completion_recorded t \<Longrightarrow> completion_recorded (fst (hook_update e h t w))"
  unfolding completion_recorded_def
  by (cases h)
     (auto simp: update_defs leg_defs addEvent_eq log_call_def Let_def
        split: option.splits sum.splits)

lemma hook_update_completedAt:
  "\<not> tempo_completion h \<Longrightarrow> completedAt (fst (hook_update e h t w)) = completedAt t"
  by (cases h)
     (auto simp: update_defs leg_defs addEvent_eq log_call_def Let_def
        split: option.splits sum.splits)

lemma hook_update_completion:
  "tempo_completion h \<Longrightarrow>
     status (fst (hook_update e h t w)) = Completed \<and>
     completedAt (fst (hook_update e h t w)) =
       Some (now e (if leg3 (legs t) = None then clock_reads w else Suc (clock_reads w)))"
  by (cases h)
     (auto simp: update_defs leg_defs addEvent_eq log_call_def Let_def
        split: option.splits sum.splits)

lemma createTransfer_new_completedAt:
  "transfers (snd (createTransfer e req q bl pr w)) (uuidv4 e (uuid_reads w)) = Some t' \<Longrightarrow>
     completedAt t' = None"
  by (cases bl; cases pr) (auto simp: create_defs)

lemma step_recorded:
  assumes "\<forall>k t. transfers w k = Some t \<longrightarrow> completion_recorded t"
  shows "\<forall>k t. transfers (step e x w) k = Some t \<longrightarrow> completion_recorded t"
proof (intro allI impI)
  fix k t'
  assume st: "transfers (step e x w) k = Some t'"
  from step_lookup [OF st] show "completion_recorded t'"
  proof (elim disjE exE conjE)
    assume "transfers w k = Some t'"
    then show ?thesis using assms by blast
  next
    fix h t
    assume "x = Hook h" "hook_target h = k" "transfers w k = Some t"
      "t' = fst (hook_update e h t w)"
    then show ?thesis using assms hook_update_recorded by blast
  next
    fix req q bl pr
    assume "x = Create req q bl pr" "k = uuidv4 e (uuid_reads w)"
    then show ?thesis
      using st createTransfer_new_completedAt [of e req q bl pr w t']
      by (simp add: completion_recorded_def)
  qed
qed

subsection \<open>Provider references of the legs\<close>

lemma legs_backed_mono:
  "legs_backed k cs t \<Longrightarrow> set cs \<subseteq> set cs' \<Longrightarrow> legs_backed k cs' t"
  unfolding legs_backed_def by (auto split: option.splits)

lemma legs_backed_ids:
  "legs_backed k cs t \<longleftrightarrow>
     (\<forall>x. map_option externalId (leg1 (legs t)) = Some x \<longrightarrow>
          returned_by InitiatePaytechTransfer k x \<in> set cs) \<and>
     (\<forall>x. map_option externalId (leg2 (legs t)) = Some x \<longrightarrow>
          returned_by CreateBridgeLiquidationAddress k x \<in> set cs) \<and>
     (\<forall>x. map_option externalId (leg3 (legs t)) = Some x \<longrightarrow>
          x = ''tempo_pending_'' @ k \<or> returned_by CreateTempoPayment k x \<in> set cs)"
  unfolding legs_backed_def by (auto split: option.splits)

lemma paytech_update_ids:
  "map_option externalId (leg1 (legs (fst (paytech_update e ev t w)))) =
     map_option externalId (leg1 (legs t)) \<and>
   leg2 (legs (fst (paytech_update e ev t w))) = leg2 (legs t) \<and>
   leg3 (legs (fst (paytech_update e ev t w))) = leg3 (legs t) \<and>
   calls (snd (paytech_update e ev t w)) = calls w"
  by (simp add: paytech_update_def leg_defs addEvent_eq split: option.splits)

lemma tempo_update_ids:
  "leg1 (legs (fst (tempo_update e ev t w))) = leg1 (legs t) \<and>
   leg2 (legs (fst (tempo_update e ev t w))) = leg2 (legs t) \<and>
   map_option externalId (leg3 (legs (fst (tempo_update e ev t w)))) =
     map_option externalId (leg3 (legs t)) \<and>
   calls (snd (tempo_update e ev t w)) = calls w"
  by (simp add: tempo_update_def leg_defs addEvent_eq split: option.splits)

lemma bridge_update_ids:
  "leg1 (legs (fst (bridge_update e k ev posted t w))) = leg1 (legs t) \<and>
   map_option externalId (leg2 (legs (fst (bridge_update e k ev posted t w)))) =
     map_option externalId (leg2 (legs t)) \<and>
   (map_option externalId (leg3 (legs (fst (bridge_update e k ev posted t w)))) =
      map_option externalId (leg3 (legs t)) \<or>
    (\<exists>x. map_option externalId (leg3 (legs (fst (bridge_update e k ev posted t w)))) = Some x \<and>
         returned_by CreateTempoPayment k x
           \<in> set (calls (snd (bridge_update e k ev posted t w)))))"
  by (simp add: bridge_update_def leg_defs addEvent_eq log_call_def Let_def returned_id_def
        returned_by_def split: option.splits sum.splits)


lemma hook_update_backed:
  assumes "legs_backed (hook_target h) (calls w) t"
  shows "legs_backed (hook_target h) (calls (snd (hook_update e h t w)))
           (fst (hook_update e h t w))"
proof (cases h)
  case (PaytechHook k ev)
  then show ?thesis
    using assms paytech_update_ids [of e ev t w] by (simp add: legs_backed_ids)
next
  case (BridgeHook k ev posted)
  let ?t = "fst (bridge_update e k ev posted t w)"
  let ?cs = "calls (snd (bridge_update e k ev posted t w))"
  have old: "legs_backed k ?cs t"
    using assms BridgeHook hook_update_calls [of w e h t]
    by (auto intro: legs_backed_mono)
  have ids:
    "leg1 (legs ?t) = leg1 (legs t)"
    "map_option externalId (leg2 (legs ?t)) = map_option externalId (leg2 (legs t))"
    "map_option externalId (leg3 (legs ?t)) = map_option externalId (leg3 (legs t)) \<or>
     (\<exists>x. map_option externalId (leg3 (legs ?t)) = Some x \<and>
          returned_by CreateTempoPayment k x \<in> set ?cs)"
    using bridge_update_ids [of e k ev posted t w] by blast+
  have l3: "\<forall>x. map_option externalId (leg3 (legs ?t)) = Some x \<longrightarrow>
              x = ''tempo_pending_'' @ k \<or> returned_by CreateTempoPayment k x \<in> set ?cs"
  proof (intro allI impI)
    fix x
    assume x: "map_option externalId (leg3 (legs ?t)) = Some x"
    from ids(3) show "x = ''tempo_pending_'' @ k \<or> returned_by CreateTempoPayment k x \<in> set ?cs"
    proof
      assume "map_option externalId (leg3 (legs ?t)) = map_option externalId (leg3 (legs t))"
      then have "map_option externalId (leg3 (legs t)) = Some x" using x by simp
      then show ?thesis using old unfolding legs_backed_ids by blast
    next
      assume "\<exists>y. map_option externalId (leg3 (legs ?t)) = Some y \<and>
                  returned_by CreateTempoPayment k y \<in> set ?cs"
      then show ?thesis using x by auto
    qed
  qed
  have "legs_backed k ?cs ?t"
    unfolding legs_backed_ids
    using old [unfolded legs_backed_ids] ids(1,2) l3 by simp
  then show ?thesis using BridgeHook by simp
next
  case (TempoHook k ev)
  then show ?thesis
    using assms tempo_update_ids [of e ev t w] by (simp add: legs_backed_ids)
qed

lemma createTransfer_new_backed:
  "transfers (snd (createTransfer e req q bl pr w)) (uuidv4 e (uuid_reads w)) = Some t' \<Longrightarrow>
     legs_backed (uuidv4 e (uuid_reads w)) (calls (snd (createTransfer e req q bl pr w))) t'"
  by (cases bl; cases pr) (auto simp: create_defs legs_backed_def returned_by_def)


lemma step_backed:
  assumes "\<forall>k t. transfers w k = Some t \<longrightarrow> legs_backed k (calls w) t"
  shows "\<forall>k t. transfers (step e x w) k = Some t \<longrightarrow> legs_backed k (calls (step e x w)) t"
proof (intro allI impI)
  fix k t'
  assume st: "transfers (step e x w) k = Some t'"
  from step_lookup [OF st] show "legs_backed k (calls (step e x w)) t'"
  proof (elim disjE exE conjE)
    assume "transfers w k = Some t'"
    then have "legs_backed k (calls w) t'" using assms by blast
    then show ?thesis by (rule legs_backed_mono) (rule step_calls)
  next
    fix h t
    assume h: "x = Hook h" "hook_target h = k" "transfers w k = Some t"
      "t' = fst (hook_update e h t w)"
    then have "legs_backed (hook_target h) (calls w) t" using assms by blast
    then show ?thesis
      using h hook_update_backed [of h w t e] deliver1_found [of w h t e] by simp
  next
    fix req q bl pr
    assume "x = Create req q bl pr" "k = uuidv4 e (uuid_reads w)"
    then show ?thesis
      using st createTransfer_new_backed [of e req q bl pr w t'] by simp
  qed
qed

subsection \<open>Leg statuses\<close>



section \<open>Properties of the orchestrator\<close>

lemma run_append: "run e (xs @ ys) w = run e ys (run e xs w)"
  by (induction xs arbitrary: w) simp_all

lemma run_hooks: "run e (map Hook hs) w = deliver e hs w"
  by (induction hs arbitrary: w) simp_all

lemma first_rejection_Some:
  "first_rejection order p b t = Some err \<Longrightarrow> p = Inl err \<or> b = Inl err \<or> t = Inl err"
  by (induction order p b t rule: first_rejection.induct) (auto split: sum.splits)

lemma first_rejection_None: "first_rejection order (Inr x) (Inr y) (Inr z) = None"
  by (induction order "Inr x :: js_error + 'a" "Inr y :: js_error + 'b"
        "Inr z :: js_error + 'c" rule: first_rejection.induct) simp_all

lemma promise_all3_Inr: "promise_all3 order (Inr x) (Inr y) (Inr z) = Inr (x, y, z)"
  by (simp add: promise_all3_def first_rejection_None)

lemma promise_all3_Inl:
  "promise_all3 order p b t = Inl err \<Longrightarrow> p = Inl err \<or> b = Inl err \<or> t = Inl err"
  by (auto simp: promise_all3_def split: option.splits sum.splits
        dest: first_rejection_Some)

lemma promise_all3_fails: "isl p \<or> isl b \<or> isl t \<Longrightarrow> isl (promise_all3 order p b t)"
  by (auto simp: promise_all3_def split: option.splits sum.splits)

lemma fetch_quotes_Inr:
  assumes "getPaytechQuote ad (req_sendAmount req) (req_sendCurrency req) (req_sendCountry req)
             = Inr pq"
    and "getBridgeQuote ad (req_sendAmount req) (req_sendCurrency req)
           (selectStablecoin (req_sendCurrency req))
           (selectNetwork (req_sendCurrency req) (req_receiveCurrency req)) = Inr bq"
    and "getTempoQuote ad (mul ar (req_sendAmount req) (lit ar 1)) (req_receiveCurrency req)
           (req_receiveCountry req) = Inr tq"
  shows "fetch_quotes ar ad req = Inr (pq, bq, tq)"
  using assms by (simp add: fetch_quotes_def promise_all3_Inr del: selectNetwork.simps)

lemma fetch_quotes_Inl:
  "fetch_quotes ar ad req = Inl err \<Longrightarrow>
     getPaytechQuote ad (req_sendAmount req) (req_sendCurrency req) (req_sendCountry req)
       = Inl err \<or>
     getBridgeQuote ad (req_sendAmount req) (req_sendCurrency req)
       (selectStablecoin (req_sendCurrency req))
       (selectNetwork (req_sendCurrency req) (req_receiveCurrency req)) = Inl err \<or>
     getTempoQuote ad (mul ar (req_sendAmount req) (lit ar 1)) (req_receiveCurrency req)
       (req_receiveCountry req) = Inl err"
  unfolding fetch_quotes_def by (rule promise_all3_Inl)

lemma fetch_quotes_fails:
  "isl (getPaytechQuote ad (req_sendAmount req) (req_sendCurrency req) (req_sendCountry req)) \<or>
   isl (getBridgeQuote ad (req_sendAmount req) (req_sendCurrency req)
          (selectStablecoin (req_sendCurrency req))
          (selectNetwork (req_sendCurrency req) (req_receiveCurrency req))) \<or>
   isl (getTempoQuote ad (mul ar (req_sendAmount req) (lit ar 1)) (req_receiveCurrency req)
          (req_receiveCountry req)) \<Longrightarrow>
   isl (fetch_quotes ar ad req)"
  unfolding fetch_quotes_def by (rule promise_all3_fails)

lemmas spec_defs = spec_afterLeg1_def spec_stablecoinAmount_def spec_receiveAmount_def
  spec_platformFee_def spec_totalFee_def

text \<open>
  C1. With the three leg quotes that the adapters return, \<open>getTransferQuote\<close> returns a
  quote whose receive amount is the chained formula (send minus the leg-1 fee, times the
  leg-2 rate minus the leg-2 fee, minus the leg-3 fee, times the leg-3 rate), whose
  platform fee is send times the basis points over 10000, added to the three provider
  fees in the total, and in which rounding (2 decimals for amounts, 6 for the rate) is
  applied to the finished values only.
\<close>

theorem quote_chain:
  assumes "getPaytechQuote ad (req_sendAmount req) (req_sendCurrency req) (req_sendCountry req)
             = Inr pq"
    and "getBridgeQuote ad (req_sendAmount req) (req_sendCurrency req)
           (selectStablecoin (req_sendCurrency req))
           (selectNetwork (req_sendCurrency req) (req_receiveCurrency req)) = Inr bq"
    and "getTempoQuote ad (mul ar (req_sendAmount req) (lit ar 1)) (req_receiveCurrency req)
           (req_receiveCountry req) = Inr tq"
  shows "\<exists>q. fst (getTransferQuote e ar ad bps req w) = Inr q \<and>
           sendAmount q = req_sendAmount req \<and>
           receiveAmount q =
             toFixed ar 2
               (spec_receiveAmount ar (req_sendAmount req) (pq_fee pq) (bq_exchangeRate bq)
                  (bq_fee bq) (tq_fee tq) (tq_exchangeRate tq)) \<and>
           exchangeRate q =
             toFixed ar 6
               (dvd_n ar
                  (spec_receiveAmount ar (req_sendAmount req) (pq_fee pq) (bq_exchangeRate bq)
                     (bq_fee bq) (tq_fee tq) (tq_exchangeRate tq))
                  (req_sendAmount req)) \<and>
           fee_platform (fees q) = spec_platformFee ar (req_sendAmount req) bps \<and>
           fee_total (fees q) =
             toFixed ar 2
               (spec_totalFee ar (req_sendAmount req) bps (pq_fee pq) (bq_exchangeRate bq)
                  (bq_fee bq) (tq_fee tq)) \<and>
           fee_paytech (fees q) = pq_fee pq \<and>
           l1_fee (route_leg1 (route q)) = pq_fee pq \<and>
           l2_fee (route_leg2 (route q)) = bq_fee bq \<and>
           l3_fee (route_leg3 (route q)) = tq_fee tq"
proof -
  have "fetch_quotes ar ad req = Inr (pq, bq, tq)"
    using assms by (rule fetch_quotes_Inr)
  then show ?thesis
    by (simp add: quote_defs spec_defs del: selectNetwork.simps)
qed

theorem quote_chain_witness:
  "\<exists>q. fst (getTransferQuote demo_env int_arith demo_adapters 50 demo_quote_request
              (init_world :: int world)) = Inr q \<and>
       sendAmount q = 1000 \<and> receiveAmount q = 57188 \<and> fee_platform (fees q) = 5 \<and>
       fee_total (fees q) = 19"
proof -
  have p: "getPaytechQuote demo_adapters (req_sendAmount demo_quote_request)
             (req_sendCurrency demo_quote_request) (req_sendCountry demo_quote_request)
           = Inr \<lparr>pq_fee = 5, pq_feeCurrency = USD, pq_estimatedSettlementSeconds = 900\<rparr>"
    by (simp add: demo_adapters_def demo_quote_request_def)
  have b: "getBridgeQuote demo_adapters (req_sendAmount demo_quote_request)
             (req_sendCurrency demo_quote_request)
             (selectStablecoin (req_sendCurrency demo_quote_request))
             (selectNetwork (req_sendCurrency demo_quote_request)
                (req_receiveCurrency demo_quote_request))
           = Inr \<lparr>bq_sourceAmount = 1000, bq_destinationAmount = 999, bq_exchangeRate = 1,
                  bq_fee = 1, bq_network = Base, bq_estimatedSettlementSeconds = 30\<rparr>"
    by (simp add: demo_adapters_def demo_quote_request_def)
  have t: "getTempoQuote demo_adapters
             (mul int_arith (req_sendAmount demo_quote_request) (lit int_arith 1))
             (req_receiveCurrency demo_quote_request) (req_receiveCountry demo_quote_request)
           = Inr \<lparr>tq_quoteId = ''tempo_q_1'', tq_sourceAmount = 1000,
                  tq_destinationAmount = 57536, tq_exchangeRate = 58, tq_fee = 8,
                  tq_paymentRail = LocalRails, tq_estimatedSettlementSeconds = 3600\<rparr>"
    by (simp add: demo_adapters_def demo_quote_request_def int_arith_def)
  show ?thesis
    using quote_chain [OF p b t, of demo_env 50 init_world]
    by (auto simp: spec_defs int_arith_def demo_quote_request_def)
qed

text \<open>
  C5. If one of the three leg-quote calls fails, \<open>getTransferQuote\<close> fails with the
  error of a failed call and returns no quote; the store is as before.
\<close>

theorem quote_all_or_nothing:
  assumes "isl (getPaytechQuote ad (req_sendAmount req) (req_sendCurrency req)
                  (req_sendCountry req)) \<or>
           isl (getBridgeQuote ad (req_sendAmount req) (req_sendCurrency req)
                  (selectStablecoin (req_sendCurrency req))
                  (selectNetwork (req_sendCurrency req) (req_receiveCurrency req))) \<or>
           isl (getTempoQuote ad (mul ar (req_sendAmount req) (lit ar 1))
                  (req_receiveCurrency req) (req_receiveCountry req))"
  shows "\<exists>err. fst (getTransferQuote e ar ad bps req w) = Inl err \<and>
           (getPaytechQuote ad (req_sendAmount req) (req_sendCurrency req)
              (req_sendCountry req) = Inl err \<or>
            getBridgeQuote ad (req_sendAmount req) (req_sendCurrency req)
              (selectStablecoin (req_sendCurrency req))
              (selectNetwork (req_sendCurrency req) (req_receiveCurrency req)) = Inl err \<or>
            getTempoQuote ad (mul ar (req_sendAmount req) (lit ar 1))
              (req_receiveCurrency req) (req_receiveCountry req) = Inl err) \<and>
           transfers (snd (getTransferQuote e ar ad bps req w)) = transfers w"
proof -
  from assms have "isl (fetch_quotes ar ad req)" by (rule fetch_quotes_fails)
  then obtain err where err: "fetch_quotes ar ad req = Inl err"
    by (cases "fetch_quotes ar ad req") simp_all
  then have "fst (getTransferQuote e ar ad bps req w) = Inl err"
    by (simp add: quote_defs del: selectNetwork.simps)
  then show ?thesis
    using fetch_quotes_Inl [OF err] getTransferQuote_world [of e ar ad bps req w] by blast
qed

theorem quote_all_or_nothing_witness:
  "isl (getBridgeQuote failing_adapters (req_sendAmount demo_quote_request)
          (req_sendCurrency demo_quote_request)
          (selectStablecoin (req_sendCurrency demo_quote_request))
          (selectNetwork (req_sendCurrency demo_quote_request)
             (req_receiveCurrency demo_quote_request))) \<and>
   fst (getTransferQuote demo_env int_arith failing_adapters 50 demo_quote_request
          (init_world :: int world)) = Inl (Error ''timeout'')"
proof -
  have b: "isl (getBridgeQuote failing_adapters (req_sendAmount demo_quote_request)
                  (req_sendCurrency demo_quote_request)
                  (selectStablecoin (req_sendCurrency demo_quote_request))
                  (selectNetwork (req_sendCurrency demo_quote_request)
                     (req_receiveCurrency demo_quote_request)))"
    by (simp add: failing_adapters_def)
  then have "isl (getPaytechQuote failing_adapters (req_sendAmount demo_quote_request)
                    (req_sendCurrency demo_quote_request)
                    (req_sendCountry demo_quote_request)) \<or>
             isl (getBridgeQuote failing_adapters (req_sendAmount demo_quote_request)
                    (req_sendCurrency demo_quote_request)
                    (selectStablecoin (req_sendCurrency demo_quote_request))
                    (selectNetwork (req_sendCurrency demo_quote_request)
                       (req_receiveCurrency demo_quote_request))) \<or>
             isl (getTempoQuote failing_adapters
                    (mul int_arith (req_sendAmount demo_quote_request) (lit int_arith 1))
                    (req_receiveCurrency demo_quote_request)
                    (req_receiveCountry demo_quote_request))"
    by blast
  from quote_all_or_nothing [OF this, of demo_env 50 init_world] b
  show ?thesis
    by (auto simp: failing_adapters_def demo_adapters_def)
qed

text \<open>
  C6. When a leg-2 webhook with state \<open>payment_processed\<close> is handled and the leg-3
  initiation throws, the handler returns normally, the transfer's final status is
  \<open>failed\<close>, a leg-2 record is \<open>completed\<close> with the event's txHash, and the leg-1 and
  leg-3 records are as they were before the handler ran.
\<close>

theorem bridge_partial_failure:
  assumes "transfers w k = Some t" and "be_state ev = ''payment_processed''"
    and "createTempoPayment (recipient (request t)) posted = Inl err"
  shows "\<exists>t'. handleBridgeWebhook e k ev posted w =
                 (Inr (), snd (handleBridgeWebhook e k ev posted w)) \<and>
               transfers (snd (handleBridgeWebhook e k ev posted w)) k = Some t' \<and>
               status t' = Failed \<and>
               leg1 (legs t') = leg1 (legs t) \<and>
               leg3 (legs t') = leg3 (legs t) \<and>
               leg2 (legs t') =
                 map_option (\<lambda>l. l\<lparr>leg_status := LegCompleted,
                                   leg_completedAt := Some (now e (clock_reads w)),
                                   txHash := be_txHash ev\<rparr>) (leg2 (legs t))"
  using assms
  by (cases "leg2 (legs t)")
     (simp_all add: handleBridgeWebhook_def bridge_update_def leg_defs addEvent_eq
        transfers_set_def log_call_def Let_def)

theorem bridge_partial_failure_witness:
  "\<exists>t t'. transfers demo_created ''id-'' = Some t \<and>
          transfers (snd (handleBridgeWebhook demo_env ''id-''
                            \<lparr>be_state = ''payment_processed'', be_transferId = ''liq-1'',
                             be_txHash = Some ''0xfeed'', be_amount = ''994''\<rparr>
                            (Inl (Error ''Tempo error'')) demo_created)) ''id-'' = Some t' \<and>
          status t' = Failed \<and>
          map_option leg_status (leg2 (legs t')) = Some LegCompleted \<and>
          map_option txHash (leg2 (legs t')) = Some (Some ''0xfeed'') \<and>
          leg3 (legs t') = leg3 (legs t)"
proof -
  obtain t where t: "transfers demo_created ''id-'' = Some t"
    by (simp add: demo_created_def demo_defs run_defs)
  have l2: "leg2 (legs t) \<noteq> None"
    using t by (auto simp: demo_created_def demo_defs run_defs)
  have ev: "be_state \<lparr>be_state = ''payment_processed'', be_transferId = ''liq-1'',
                       be_txHash = Some ''0xfeed'', be_amount = ''994''\<rparr>
              = ''payment_processed''"
    by simp
  have thrown: "createTempoPayment (recipient (request t)) (Inl (Error ''Tempo error''))
                  = Inl (Error ''Tempo error'')"
    using t by (auto simp: createTempoPayment_def demo_created_def demo_defs run_defs)
  from bridge_partial_failure [OF t ev thrown, of demo_env] t l2
  show ?thesis by auto
qed

text \<open>
  C7. For a transfer id absent from the store, each of the three webhook handlers
  raises the not-found error and leaves the whole world, the store included, as it
  was.
\<close>

theorem webhook_unknown_id:
  assumes "transfers w k = None"
  shows "handlePaytechWebhook e k pev w = (Inl (not_found k), w) \<and>
         handleBridgeWebhook e k bev posted w = (Inl (not_found k), w) \<and>
         handleTempoWebhook e k tev w = (Inl (not_found k), w)"
  using assms by (simp add: handler_defs)

theorem webhook_unknown_id_witness:
  "transfers demo_created ''nope'' = None \<and>
   handlePaytechWebhook demo_env ''nope'' \<lparr>pe_status = ''settled'', pe_transferId = ''pt-1''\<rparr>
     demo_created = (Inl (Error ''Transfer nope not found''), demo_created) \<and>
   handleBridgeWebhook demo_env ''nope''
     \<lparr>be_state = ''payment_processed'', be_transferId = ''liq-1'',
      be_txHash = Some ''0xfeed'', be_amount = ''994''\<rparr> demo_payment demo_created
     = (Inl (Error ''Transfer nope not found''), demo_created) \<and>
   handleTempoWebhook demo_env ''nope'' \<lparr>te_status = ''completed'', te_paymentId = ''pay-1''\<rparr>
     demo_created = (Inl (Error ''Transfer nope not found''), demo_created)"
proof -
  have absent: "transfers demo_created ''nope'' = None"
    by (simp add: demo_created_def demo_defs run_defs)
  from webhook_unknown_id [OF absent] absent
  show ?thesis by (simp add: not_found_def)
qed

text \<open>
  C10. For a stored transfer with no leg-1 record, \<open>handlePaytechWebhook\<close> with status
  \<open>settled\<close> still appends one \<open>bridging\<close> event and sets the status to \<open>bridging\<close>, and
  with status \<open>failed\<close> appends one \<open>failed\<close> event and sets the status to \<open>failed\<close>;
  the legs stay as they were.
\<close>

theorem paytech_webhook_without_leg1:
  assumes "transfers w k = Some t" and "leg1 (legs t) = None"
  shows "(pe_status ev = ''settled'' \<longrightarrow>
           (\<exists>t' x. transfers (snd (handlePaytechWebhook e k ev w)) k = Some t' \<and>
              status t' = Bridging \<and> timeline t' = timeline t @ [x] \<and>
              event_status x = Bridging \<and> legs t' = legs t)) \<and>
         (pe_status ev = ''failed'' \<longrightarrow>
           (\<exists>t' x. transfers (snd (handlePaytechWebhook e k ev w)) k = Some t' \<and>
              status t' = Failed \<and> timeline t' = timeline t @ [x] \<and>
              event_status x = Failed \<and> legs t' = legs t))"
  using assms
  by (simp add: handlePaytechWebhook_def paytech_update_def complete_leg1_def fail_leg1_def
        addEvent_eq transfers_set_def)

theorem paytech_webhook_without_leg1_witness:
  "\<exists>t t1 t2. transfers demo_unrouted ''id-'' = Some t \<and> leg1 (legs t) = None \<and>
     transfers (snd (handlePaytechWebhook demo_env ''id-''
                       \<lparr>pe_status = ''settled'', pe_transferId = ''pt-1''\<rparr> demo_unrouted))
       ''id-'' = Some t1 \<and>
     status t1 = Bridging \<and> length (timeline t1) = Suc (length (timeline t)) \<and>
     transfers (snd (handlePaytechWebhook demo_env ''id-''
                       \<lparr>pe_status = ''failed'', pe_transferId = ''pt-1''\<rparr> demo_unrouted))
       ''id-'' = Some t2 \<and>
     status t2 = Failed \<and> length (timeline t2) = Suc (length (timeline t))"
proof -
  obtain t where t: "transfers demo_unrouted ''id-'' = Some t"
    by (simp add: demo_unrouted_def demo_defs run_defs)
  have l1: "leg1 (legs t) = None"
    using t by (auto simp: demo_unrouted_def demo_defs run_defs)
  from paytech_webhook_without_leg1
         [OF t l1, of "\<lparr>pe_status = ''settled'', pe_transferId = ''pt-1''\<rparr>" demo_env]
       paytech_webhook_without_leg1
         [OF t l1, of "\<lparr>pe_status = ''failed'', pe_transferId = ''pt-1''\<rparr>" demo_env]
       t l1
  show ?thesis by auto
qed

lemma run_invariant:
  assumes "\<And>x w. I w \<Longrightarrow> I (step e x w)" and "I w"
  shows "I (run e xs w)"
  using assms(2) by (induction xs arbitrary: w) (simp_all add: assms(1))

lemma demo_done_run:
  "demo_done =
     run demo_env
       ([Create demo_request demo_quote demo_liq demo_collect] @
        map Hook [paytech_settled, bridge_processed, tempo_completed]) init_world"
  by (simp only: run_append run_hooks demo_done_def demo_created_def)














text \<open>
  C4, as stated, fails in its last part: \<open>addEvent\<close> reads the clock once for the
  event's timestamp and a second time for \<open>updatedAt\<close>. With a clock that advances
  between the two reads, the transfer that \<open>createTransfer\<close> returns has
  \<open>updatedAt\<close> one millisecond after the timestamp of its last event.
\<close>

theorem timeline_status_counterexample:
  "map_option (\<lambda>t. event_timestamp (last (timeline t))) (transfers demo_created ''id-'')
     = Some 1011 \<and>
   map_option updatedAt (transfers demo_created ''id-'') = Some 1012 \<and>
   map_option (\<lambda>t. event_timestamp (last (timeline t)))
     (case fst (createTransfer demo_env demo_request demo_quote demo_liq demo_collect
                  init_world) of Inl err \<Rightarrow> None | Inr t \<Rightarrow> Some t) = Some 1011 \<and>
   map_option updatedAt
     (case fst (createTransfer demo_env demo_request demo_quote demo_liq demo_collect
                  init_world) of Inl err \<Rightarrow> None | Inr t \<Rightarrow> Some t) = Some 1012"
  by (simp add: demo_created_def demo_defs run_defs)

text \<open>
  C4, amended. For every transfer in the store after any sequence of operations of the
  orchestrator (quotes, commits, webhooks), the timeline is not empty, the status is
  that of the last timeline event, and the last event's timestamp and \<open>updatedAt\<close> are
  two consecutive readings of the clock, the timestamp first; so they are equal
  whenever the clock did not advance between these two readings.
\<close>

theorem timeline_status_amended:
  assumes "transfers (run e xs init_world) k = Some t"
  shows "timeline t \<noteq> [] \<and> status t = event_status (last (timeline t)) \<and>
         (\<exists>i. Suc i < clock_reads (run e xs init_world) \<and>
              event_timestamp (last (timeline t)) = now e i \<and>
              updatedAt t = now e (Suc i) \<and>
              (now e i = now e (Suc i) \<longrightarrow>
                 updatedAt t = event_timestamp (last (timeline t))))"
proof -
  have "world_consistent e (run e xs init_world)"
    by (rule run_invariant [of "world_consistent e"]) (simp_all add: step_consistent init_consistent)
  then have "timeline_consistent e (clock_reads (run e xs init_world)) t"
    using assms by (simp add: world_consistent_def)
  then show ?thesis
    by (auto simp: timeline_consistent_def)
qed

theorem timeline_status_amended_witness:
  "\<exists>t. transfers demo_done ''id-'' = Some t \<and> timeline t \<noteq> [] \<and>
     status t = event_status (last (timeline t)) \<and>
     (\<exists>i. Suc i < clock_reads demo_done \<and>
          event_timestamp (last (timeline t)) = now demo_env i \<and>
          updatedAt t = now demo_env (Suc i))"
proof -
  obtain t where t: "transfers demo_done ''id-'' = Some t"
    by (simp add: demo_done_def demo_created_def demo_defs run_defs)
  from timeline_status_amended [OF t [unfolded demo_done_run]] t
  show ?thesis unfolding demo_done_run by blast
qed

text \<open>
  C9, as stated, fails: every leg-3 \<open>settled\<close> or \<open>completed\<close> webhook stamps
  \<open>completedAt\<close> anew. On the transfer that ran to completion, \<open>completedAt\<close> is the
  reading 1023; a repeated leg-3 completion webhook changes it to the reading 1027.
\<close>

theorem completedAt_counterexample:
  "map_option completedAt (transfers demo_done ''id-'') = Some (Some 1023) \<and>
   map_option completedAt
     (transfers (snd (handleTempoWebhook demo_env ''id-''
                        \<lparr>te_status = ''completed'', te_paymentId = ''pay-1''\<rparr> demo_done))
        ''id-'') = Some (Some 1027)"
  by (simp add: demo_done_def demo_created_def demo_defs run_defs)

text \<open>
  C9, amended. For every transfer in the store after any sequence of operations:
  \<open>completedAt\<close> is set only if the timeline has a \<open>completed\<close> event (a transfer that
  never reached \<open>completed\<close> has none); a webhook that is not a leg-3 \<open>settled\<close> or
  \<open>completed\<close> event for this transfer leaves \<open>completedAt\<close> as it is; and each leg-3
  \<open>settled\<close> or \<open>completed\<close> event for it, a repeated one included, sets the status to
  \<open>completed\<close> and \<open>completedAt\<close> to the clock reading taken then.
\<close>

theorem completedAt_amended:
  assumes "transfers (run e xs init_world) k = Some t"
  shows "(completedAt t = None \<or> Completed \<in> set (map event_status (timeline t))) \<and>
         (\<exists>t'. transfers (snd (deliver1 e h (run e xs init_world))) k = Some t' \<and>
            (if tempo_completion h \<and> hook_target h = k
             then status t' = Completed \<and>
                  completedAt t' =
                    Some (now e (if leg3 (legs t) = None
                                 then clock_reads (run e xs init_world)
                                 else Suc (clock_reads (run e xs init_world))))
             else completedAt t' = completedAt t))"
proof -
  have "\<forall>k t. transfers (run e xs init_world) k = Some t \<longrightarrow> completion_recorded t"
    by (rule run_invariant
          [of "\<lambda>w. \<forall>k t. transfers w k = Some t \<longrightarrow> completion_recorded t"])
       (simp_all add: step_recorded init_world_def)
  then have past: "completedAt t = None \<or> Completed \<in> set (map event_status (timeline t))"
    using assms by (simp add: completion_recorded_def)
  have "\<exists>t'. transfers (snd (deliver1 e h (run e xs init_world))) k = Some t' \<and>
            (if tempo_completion h \<and> hook_target h = k
             then status t' = Completed \<and>
                  completedAt t' =
                    Some (now e (if leg3 (legs t) = None
                                 then clock_reads (run e xs init_world)
                                 else Suc (clock_reads (run e xs init_world))))
             else completedAt t' = completedAt t)"
    using assms
    by (auto simp: deliver1_lookup hook_update_completion hook_update_completedAt)
  with past show ?thesis by blast
qed

theorem completedAt_amended_witness:
  "\<exists>t t1 t2. transfers demo_done ''id-'' = Some t \<and>
     Completed \<in> set (map event_status (timeline t)) \<and>
     transfers (snd (deliver1 demo_env tempo_completed demo_done)) ''id-'' = Some t1 \<and>
     status t1 = Completed \<and> completedAt t1 = Some (now demo_env (Suc (clock_reads demo_done))) \<and>
     transfers (snd (deliver1 demo_env paytech_settled demo_done)) ''id-'' = Some t2 \<and>
     completedAt t2 = completedAt t"
proof -
  obtain t where t: "transfers demo_done ''id-'' = Some t"
    by (simp add: demo_done_def demo_created_def demo_defs run_defs)
  have c: "completedAt t \<noteq> None" "leg3 (legs t) \<noteq> None"
    using t by (auto simp: demo_done_def demo_created_def demo_defs run_defs)
  from completedAt_amended [OF t [unfolded demo_done_run], of tempo_completed]
       completedAt_amended [OF t [unfolded demo_done_run], of paytech_settled] t c
  show ?thesis
    unfolding demo_done_run
    by (auto simp: tempo_completed_def paytech_settled_def)
qed

text \<open>
  C8, as stated, fails for leg 3: \<open>createTransfer\<close> pre-creates the leg-3 record with
  the placeholder reference \<open>tempo_pending_\<close> followed by the transfer id, before any
  call of \<open>createTempoPayment\<close> has been made.
\<close>

theorem externalId_counterexample:
  "map_option (\<lambda>t. map_option externalId (leg3 (legs t))) (transfers demo_created ''id-'')
     = Some (Some ''tempo_pending_id-'') \<and>
   map_option (\<lambda>t. map_option leg_status (leg3 (legs t))) (transfers demo_created ''id-'')
     = Some (Some LegPending) \<and>
   CreateTempoPayment \<notin> set (map call_fn (calls demo_created))"
  by (simp add: demo_created_def demo_defs run_defs)

text \<open>
  C8, amended. For every transfer in the store after any sequence of operations: a
  leg-1 record carries the reference that a successful \<open>initiatePaytechTransfer\<close> call
  for this transfer returned, a leg-2 record the reference that a successful
  \<open>createBridgeLiquidationAddress\<close> call for it returned, and a leg-3 record either
  the placeholder \<open>tempo_pending_\<close> followed by the transfer id, which
  \<open>createTransfer\<close> gives it, or the reference that a successful \<open>createTempoPayment\<close>
  call for this transfer returned.
\<close>

theorem externalId_amended:
  assumes "transfers (run e xs init_world) k = Some t"
  shows "(\<forall>l. leg1 (legs t) = Some l \<longrightarrow>
            returned_by InitiatePaytechTransfer k (externalId l)
              \<in> set (calls (run e xs init_world))) \<and>
         (\<forall>l. leg2 (legs t) = Some l \<longrightarrow>
            returned_by CreateBridgeLiquidationAddress k (externalId l)
              \<in> set (calls (run e xs init_world))) \<and>
         (\<forall>l. leg3 (legs t) = Some l \<longrightarrow>
            externalId l = ''tempo_pending_'' @ k \<or>
            returned_by CreateTempoPayment k (externalId l)
              \<in> set (calls (run e xs init_world)))"
proof -
  have "\<forall>k t. transfers (run e xs init_world) k = Some t \<longrightarrow>
          legs_backed k (calls (run e xs init_world)) t"
    by (rule run_invariant
          [of "\<lambda>w. \<forall>k t. transfers w k = Some t \<longrightarrow> legs_backed k (calls w) t"])
       (simp_all add: step_backed init_world_def)
  then have "legs_backed k (calls (run e xs init_world)) t"
    using assms by blast
  then show ?thesis
    by (simp add: legs_backed_def split: option.splits)
qed

theorem externalId_amended_witness:
  "\<exists>t a b c. transfers demo_done ''id-'' = Some t \<and>
     leg1 (legs t) = Some a \<and> externalId a = ''pt-1'' \<and>
     returned_by InitiatePaytechTransfer ''id-'' ''pt-1'' \<in> set (calls demo_done) \<and>
     leg2 (legs t) = Some b \<and> externalId b = ''liq-1'' \<and>
     returned_by CreateBridgeLiquidationAddress ''id-'' ''liq-1'' \<in> set (calls demo_done) \<and>
     leg3 (legs t) = Some c \<and> externalId c = ''pay-1'' \<and>
     returned_by CreateTempoPayment ''id-'' ''pay-1'' \<in> set (calls demo_done)"
proof -
  obtain t where t: "transfers demo_done ''id-'' = Some t"
    by (simp add: demo_done_def demo_created_def demo_defs run_defs)
  obtain a b c where l:
    "leg1 (legs t) = Some a" "externalId a = ''pt-1''"
    "leg2 (legs t) = Some b" "externalId b = ''liq-1''"
    "leg3 (legs t) = Some c" "externalId c = ''pay-1''"
    using t by (auto simp: demo_done_def demo_created_def demo_defs run_defs)
  from externalId_amended [OF t [unfolded demo_done_run]] t l
  show ?thesis
    unfolding demo_done_run by auto
qed

end
